theory Spec2Isabelle
  imports Complex_Main
begin

section \<open>Easy-Scan: the invoice store, the invoice editor and the upload handler\<close>

text \<open>
  A shallow embedding of the TypeScript front end of Easy-Scan, followed by a model of its
  extraction engine. The front end is the Redux slice
  \<^verbatim>\<open>src/lib/features/invoiceSlice.ts\<close>, the invoice detail editor and the invoice list
  of \<^verbatim>\<open>src/unnamed/part_001\<close>, and the upload handler
  \<^verbatim>\<open>src/app/upload-invoice/page.tsx\<close>, over the types of
  \<^verbatim>\<open>src/services/invoiceApi.ts\<close>.

  Conventions of the embedding:
  \<^item> a TypeScript \<^verbatim>\<open>number\<close> is a \<^typ>\<open>real\<close>: finite numbers with exact arithmetic.
    \<^verbatim>\<open>NaN\<close>, the infinities and the rounding of binary floating point are outside the
    embedding;
  \<^item> a field of type \<^verbatim>\<open>T | null\<close>, an optional field \<^verbatim>\<open>f?: T\<close> and a field
    \<^verbatim>\<open>f?: T | null\<close> all become \<^typ>\<open>'a option\<close>; \<^term>\<open>None\<close> stands for both
    \<^verbatim>\<open>null\<close> and \<^verbatim>\<open>undefined\<close>, which the code never tells apart (it only tests
    truthiness);
  \<^item> an interface becomes a record whose fields carry a short prefix naming the interface
    (\<open>inv_\<close> for \<^verbatim>\<open>Invoice\<close>, \<open>x_\<close> for \<^verbatim>\<open>ExtractedFields\<close>, and so on), since several
    interfaces share field names;
  \<^item> React state and the Redux store are passed explicitly; an asynchronous thunk is
    the argument it is dispatched with, and its outcome is the action the reducer
    receives.
\<close>

subsection \<open>JavaScript truthiness and the \<^verbatim>\<open>||\<close> operator\<close>

type_synonym number = real

text \<open>\<^verbatim>\<open>a || d\<close> for a number \<open>a\<close> that may be null or undefined: \<open>d\<close> when \<open>a\<close> is
  null, undefined or \<open>0\<close>.\<close>

definition num_or :: "number option \<Rightarrow> number \<Rightarrow> number" where
  "num_or a d = (case a of None \<Rightarrow> d | Some v \<Rightarrow> if v = 0 then d else v)"

text \<open>\<^verbatim>\<open>a || b\<close> where both sides may be null or undefined (the left part of a chain
  \<^verbatim>\<open>a || b || d\<close>).\<close>

definition num_or_opt :: "number option \<Rightarrow> number option \<Rightarrow> number option" where
  "num_or_opt a b = (case a of None \<Rightarrow> b | Some v \<Rightarrow> if v = 0 then b else Some v)"

text \<open>\<^verbatim>\<open>a || d\<close> for a plain number \<open>a\<close>.\<close>

definition number_or :: "number \<Rightarrow> number \<Rightarrow> number" where
  "number_or a d = (if a = 0 then d else a)"

text \<open>\<^verbatim>\<open>s || d\<close> for a string that may be null or undefined: \<open>d\<close> when \<open>s\<close> is null,
  undefined or the empty string.\<close>

definition str_or :: "string option \<Rightarrow> string \<Rightarrow> string" where
  "str_or s d = (case s of None \<Rightarrow> d | Some v \<Rightarrow> if v = [] then d else v)"

text \<open>\<^verbatim>\<open>s || null\<close> and \<^verbatim>\<open>a || b || null\<close> on strings.\<close>

definition str_or_opt :: "string option \<Rightarrow> string option \<Rightarrow> string option" where
  "str_or_opt a b = (case a of None \<Rightarrow> b | Some v \<Rightarrow> if v = [] then b else Some v)"

subsection \<open>The types of \<^verbatim>\<open>invoiceApi.ts\<close>\<close>

text \<open>An element of \<^verbatim>\<open>ExtractedFields.items\<close>.\<close>

record ExtractedItem =
  xi_description :: "string option"
  xi_quantity :: "number option"
  xi_qty :: "number option"
  xi_unitPrice :: "number option"
  xi_rate :: "number option"
  xi_totalPrice :: "number option"
  xi_amount :: "number option"

record ExtractedFields =
  x_vendor :: "string option"
  x_vendor_address :: "string option"
  x_vendor_email :: "string option"
  x_vendor_phone :: "string option"
  x_invoice_number :: "string option"
  x_invoice_date :: "string option"
  x_date :: "string option"
  x_due_date :: "string option"
  x_bill_to_name :: "string option"
  x_bill_to_address :: "string option"
  x_total :: "number option"
  x_subtotal :: "number option"
  x_tax :: "number option"
  x_taxAmount :: "number option"
  x_discount :: "number option"
  x_currency :: "string option"
  x_items :: "ExtractedItem list option"
  x_purchase_order :: "string option"

text \<open>An element of the \<^verbatim>\<open>line_items\<close> array of a persisted invoice.\<close>

record LineItemData =
  li_description :: string
  li_qty :: number
  li_rate :: number
  li_amount :: number

record Invoice =
  inv_id :: string
  inv_invoice_number :: "string option"
  inv_vendor :: "string option"
  inv_vendor_address :: "string option"
  inv_vendor_email :: "string option"
  inv_vendor_phone :: "string option"
  inv_bill_to_name :: "string option"
  inv_bill_to_address :: "string option"
  inv_invoice_date :: "string option"
  inv_due_date :: "string option"
  inv_purchase_order :: "string option"
  inv_subtotal :: number
  inv_tax :: number
  inv_tax_amount :: "number option"
  inv_discount :: number
  inv_total :: number
  inv_currency :: string
  inv_status :: string
  inv_raw_text :: "string option"
  inv_extracted_fields :: "ExtractedFields option"
  inv_line_items :: "LineItemData list option"
  inv_image_path :: "string option"
  inv_created_at :: "string option"
  inv_updated_at :: "string option"

subsection \<open>The invoice slice (\<^verbatim>\<open>invoiceSlice.ts\<close>)\<close>

record InvoiceState =
  invoices :: "Invoice list"
  currentInvoice :: "Invoice option"
  loading :: bool
  error :: "string option"
  totalCount :: nat

definition initialState :: InvoiceState where
  "initialState =
     \<lparr>invoices = [], currentInvoice = None, loading = False, error = None, totalCount = 0\<rparr>"

text \<open>
  The actions the slice handles: its two plain reducers and, for each of the five thunks,
  the pending, fulfilled and rejected action. A fulfilled action carries the thunk's
  result; a rejected action carries \<^verbatim>\<open>action.error.message\<close>, which may be undefined.
\<close>

datatype InvoiceAction =
    ClearCurrentInvoice
  | ClearError
  | FetchInvoicesPending
  | FetchInvoicesFulfilled "Invoice list"
  | FetchInvoicesRejected "string option"
  | FetchInvoiceByIdPending
  | FetchInvoiceByIdFulfilled Invoice
  | FetchInvoiceByIdRejected "string option"
  | CreateInvoicePending
  | CreateInvoiceFulfilled Invoice
  | CreateInvoiceRejected "string option"
  | UpdateInvoicePending
  | UpdateInvoiceFulfilled Invoice
  | UpdateInvoiceRejected "string option"
  | DeleteInvoicePending
  | DeleteInvoiceFulfilled string
  | DeleteInvoiceRejected "string option"

text \<open>\<^verbatim>\<open>Array.prototype.findIndex\<close>: the index of the first element that satisfies the
  predicate, \<open>-1\<close> when there is none.\<close>

fun findIndex_from :: "('a \<Rightarrow> bool) \<Rightarrow> 'a list \<Rightarrow> int \<Rightarrow> int" where
  "findIndex_from p [] i = - 1"
| "findIndex_from p (x # xs) i = (if p x then i else findIndex_from p xs (i + 1))"

definition findIndex :: "('a \<Rightarrow> bool) \<Rightarrow> 'a list \<Rightarrow> int" where
  "findIndex p xs = findIndex_from p xs 0"

text \<open>\<^verbatim>\<open>state.currentInvoice?.id === x\<close>: false when there is no current invoice.\<close>

definition currentInvoice_has_id :: "InvoiceState \<Rightarrow> string \<Rightarrow> bool" where
  "currentInvoice_has_id state x =
     (case currentInvoice state of None \<Rightarrow> False | Some c \<Rightarrow> inv_id c = x)"

fun invoiceReducer :: "InvoiceState \<Rightarrow> InvoiceAction \<Rightarrow> InvoiceState" where
  "invoiceReducer state ClearCurrentInvoice = state\<lparr>currentInvoice := None\<rparr>"
| "invoiceReducer state ClearError = state\<lparr>error := None\<rparr>"
| "invoiceReducer state FetchInvoicesPending = state\<lparr>loading := True, error := None\<rparr>"
| "invoiceReducer state (FetchInvoicesFulfilled payload) =
     state\<lparr>loading := False, invoices := payload, totalCount := length payload\<rparr>"
| "invoiceReducer state (FetchInvoicesRejected message) =
     state\<lparr>loading := False, error := Some (str_or message ''Failed to fetch invoices'')\<rparr>"
| "invoiceReducer state FetchInvoiceByIdPending = state\<lparr>loading := True, error := None\<rparr>"
| "invoiceReducer state (FetchInvoiceByIdFulfilled payload) =
     state\<lparr>loading := False, currentInvoice := Some payload\<rparr>"
| "invoiceReducer state (FetchInvoiceByIdRejected message) =
     state\<lparr>loading := False, error := Some (str_or message ''Failed to fetch invoice'')\<rparr>"
| "invoiceReducer state CreateInvoicePending = state\<lparr>loading := True, error := None\<rparr>"
| "invoiceReducer state (CreateInvoiceFulfilled payload) =
     state\<lparr>loading := False, invoices := payload # invoices state,
       currentInvoice := Some payload\<rparr>"
| "invoiceReducer state (CreateInvoiceRejected message) =
     state\<lparr>loading := False, error := Some (str_or message ''Failed to create invoice'')\<rparr>"
| "invoiceReducer state UpdateInvoicePending = state\<lparr>loading := True, error := None\<rparr>"
| "invoiceReducer state (UpdateInvoiceFulfilled payload) =
     (let index = findIndex (\<lambda>inv. inv_id inv = inv_id payload) (invoices state);
          state1 = state\<lparr>loading := False\<rparr>;
          state2 = (if index \<noteq> - 1
                    then state1\<lparr>invoices := (invoices state1)[nat index := payload]\<rparr>
                    else state1)
      in if currentInvoice_has_id state2 (inv_id payload)
         then state2\<lparr>currentInvoice := Some payload\<rparr>
         else state2)"
| "invoiceReducer state (UpdateInvoiceRejected message) =
     state\<lparr>loading := False, error := Some (str_or message ''Failed to update invoice'')\<rparr>"
| "invoiceReducer state DeleteInvoicePending = state\<lparr>loading := True, error := None\<rparr>"
| "invoiceReducer state (DeleteInvoiceFulfilled payload) =
     (let state1 = state\<lparr>loading := False,
            invoices := filter (\<lambda>inv. inv_id inv \<noteq> payload) (invoices state)\<rparr>
      in if currentInvoice_has_id state1 payload
         then state1\<lparr>currentInvoice := None\<rparr>
         else state1)"
| "invoiceReducer state (DeleteInvoiceRejected message) =
     state\<lparr>loading := False, error := Some (str_or message ''Failed to delete invoice'')\<rparr>"

text \<open>The rejected action of each of the five thunks.\<close>

definition rejected_actions :: "string option \<Rightarrow> InvoiceAction list" where
  "rejected_actions message =
     [FetchInvoicesRejected message, FetchInvoiceByIdRejected message,
      CreateInvoiceRejected message, UpdateInvoiceRejected message,
      DeleteInvoiceRejected message]"

text \<open>An invoice with the given id, status and total and nothing else filled in, for
  the examples.\<close>

definition sample_invoice :: "string \<Rightarrow> string \<Rightarrow> number \<Rightarrow> Invoice" where
  "sample_invoice i st t =
     \<lparr>inv_id = i, inv_invoice_number = None, inv_vendor = None, inv_vendor_address = None,
      inv_vendor_email = None, inv_vendor_phone = None, inv_bill_to_name = None,
      inv_bill_to_address = None, inv_invoice_date = None, inv_due_date = None,
      inv_purchase_order = None, inv_subtotal = t, inv_tax = 0, inv_tax_amount = None,
      inv_discount = 0, inv_total = t, inv_currency = ''USD'', inv_status = st,
      inv_raw_text = None, inv_extracted_fields = None, inv_line_items = None,
      inv_image_path = None, inv_created_at = None, inv_updated_at = None\<rparr>"

definition stored_state :: InvoiceState where
  "stored_state = initialState\<lparr>invoices := [sample_invoice ''a'' ''Pending Review'' 10]\<rparr>"

subsection \<open>The invoice detail editor (\<^verbatim>\<open>part_001\<close>, \<^verbatim>\<open>InvoiceDetailPage\<close>)\<close>

text \<open>
  The component's React state that the save path reads: the \<^verbatim>\<open>id\<close> query parameter, the
  line items and the form data. The flags \<^verbatim>\<open>saving\<close>, \<^verbatim>\<open>isMounted\<close>, \<^verbatim>\<open>isClient\<close>
  and the image URL only drive the rendering and are left out.
\<close>

record LineItem =
  item_id :: string
  item_description :: string
  item_qty :: number
  item_rate :: number
  item_amount :: number

record InvoiceData =
  d_invoice_number :: string
  d_invoice_date :: string
  d_due_date :: string
  d_purchase_order :: string
  d_vendor :: string
  d_vendor_address :: string
  d_vendor_email :: string
  d_vendor_phone :: string
  d_subtotal :: number
  d_tax :: number
  d_discount :: number
  d_total :: number
  d_status :: string

record EditorState =
  invoiceId :: "string option"
  lineItems :: "LineItem list"
  invoiceData :: InvoiceData

text \<open>The initial values of the two \<^verbatim>\<open>useState\<close> hooks, for a page opened with the
  given \<^verbatim>\<open>id\<close> parameter.\<close>

definition initialEditor :: "string option \<Rightarrow> EditorState" where
  "initialEditor i =
     \<lparr>invoiceId = i, lineItems = [],
      invoiceData =
        \<lparr>d_invoice_number = [], d_invoice_date = [], d_due_date = [], d_purchase_order = [],
         d_vendor = [], d_vendor_address = [], d_vendor_email = [], d_vendor_phone = [],
         d_subtotal = 0, d_tax = 0, d_discount = 0, d_total = 0,
         d_status = ''Pending Review''\<rparr>\<rparr>"

text \<open>The decimal digits of an array index, as the template literal
  \<^verbatim>\<open>`item-${index}`\<close> prints it.\<close>

fun show_nat :: "nat \<Rightarrow> string" where
  "show_nat n =
     (if n < 10 then [''0123456789'' ! n]
      else show_nat (n div 10) @ [''0123456789'' ! (n mod 10)])"

declare show_nat.simps [simp del]

text \<open>\<^verbatim>\<open>d ? d.split('T')[0] : ''\<close> for a date that may be null.\<close>

definition date_part :: "string option \<Rightarrow> string" where
  "date_part d =
     (case d of
        None \<Rightarrow> []
      | Some v \<Rightarrow> if v = [] then [] else takeWhile (\<lambda>c. c \<noteq> CHR ''T'') v)"

text \<open>The callback of \<^verbatim>\<open>line_items.map\<close> in the loading effect.\<close>

definition load_item :: "LineItemData \<Rightarrow> nat \<Rightarrow> LineItem" where
  "load_item item index =
     \<lparr>item_id = ''item-'' @ show_nat index,
      item_description = str_or (Some (li_description item)) [],
      item_qty = number_or (li_qty item) 1,
      item_rate = number_or (li_rate item) 0,
      item_amount = number_or (li_amount item) 0\<rparr>"

text \<open>The effect that runs when \<^verbatim>\<open>currentInvoice\<close> is set: it fills the form and the
  line items from the persisted invoice.\<close>

definition loadInvoice :: "Invoice \<Rightarrow> EditorState \<Rightarrow> EditorState" where
  "loadInvoice cur st =
     st\<lparr>invoiceData :=
          \<lparr>d_invoice_number = str_or (inv_invoice_number cur) [],
           d_invoice_date = date_part (inv_invoice_date cur),
           d_due_date = date_part (inv_due_date cur),
           d_purchase_order = str_or (inv_purchase_order cur) [],
           d_vendor = str_or (inv_vendor cur) [],
           d_vendor_address = str_or (inv_vendor_address cur) [],
           d_vendor_email = str_or (inv_vendor_email cur) [],
           d_vendor_phone = str_or (inv_vendor_phone cur) [],
           d_subtotal = inv_subtotal cur,
           d_tax = inv_tax cur,
           d_discount = inv_discount cur,
           d_total = inv_total cur,
           d_status = str_or (Some (inv_status cur)) ''Pending Review''\<rparr>,
        lineItems :=
          (case inv_line_items cur of
             None \<Rightarrow> []
           | Some items \<Rightarrow>
               if length items > 0
               then map (\<lambda>(item, index). load_item item index)
                      (zip items [0 ..< length items])
               else [])\<rparr>"

text \<open>\<^verbatim>\<open>lineItems.reduce((sum, item) => sum + item.amount, 0)\<close>.\<close>

definition calculateSubtotal :: "EditorState \<Rightarrow> number" where
  "calculateSubtotal st = foldl (\<lambda>sum item. sum + item_amount item) 0 (lineItems st)"

definition calculateTotal :: "EditorState \<Rightarrow> number" where
  "calculateTotal st =
     (let subtotal = calculateSubtotal st;
          tax = number_or (d_tax (invoiceData st)) 0;
          discount = number_or (d_discount (invoiceData st)) 0
      in subtotal + tax - discount)"

text \<open>\<^verbatim>\<open>addLineItem\<close>; the argument is the suffix that
  \<^verbatim>\<open>Math.random().toString(36).substr(2, 9)\<close> produced.\<close>

definition addLineItem :: "string \<Rightarrow> EditorState \<Rightarrow> EditorState" where
  "addLineItem suffix st =
     st\<lparr>lineItems := lineItems st @
          [\<lparr>item_id = ''item-'' @ show_nat (length (lineItems st)) @ ''-'' @ suffix,
            item_description = [], item_qty = 1, item_rate = 0, item_amount = 0\<rparr>]\<rparr>"

definition removeLineItem :: "string \<Rightarrow> EditorState \<Rightarrow> EditorState" where
  "removeLineItem i st = st\<lparr>lineItems := filter (\<lambda>item. item_id item \<noteq> i) (lineItems st)\<rparr>"





text \<open>
  \<^verbatim>\<open>handleInputChange(field, value)\<close> on the form, again with the value typed as the
  form field is.
\<close>

datatype InvoiceDataEdit =
    Set_invoice_number string
  | Set_invoice_date string
  | Set_due_date string
  | Set_purchase_order string
  | Set_vendor string
  | Set_vendor_address string
  | Set_vendor_email string
  | Set_vendor_phone string
  | Set_subtotal number
  | Set_tax number
  | Set_discount number
  | Set_total number
  | Set_status string

fun assign_form :: "InvoiceData \<Rightarrow> InvoiceDataEdit \<Rightarrow> InvoiceData" where
  "assign_form prev (Set_invoice_number v) = prev\<lparr>d_invoice_number := v\<rparr>"
| "assign_form prev (Set_invoice_date v) = prev\<lparr>d_invoice_date := v\<rparr>"
| "assign_form prev (Set_due_date v) = prev\<lparr>d_due_date := v\<rparr>"
| "assign_form prev (Set_purchase_order v) = prev\<lparr>d_purchase_order := v\<rparr>"
| "assign_form prev (Set_vendor v) = prev\<lparr>d_vendor := v\<rparr>"
| "assign_form prev (Set_vendor_address v) = prev\<lparr>d_vendor_address := v\<rparr>"
| "assign_form prev (Set_vendor_email v) = prev\<lparr>d_vendor_email := v\<rparr>"
| "assign_form prev (Set_vendor_phone v) = prev\<lparr>d_vendor_phone := v\<rparr>"
| "assign_form prev (Set_subtotal v) = prev\<lparr>d_subtotal := v\<rparr>"
| "assign_form prev (Set_tax v) = prev\<lparr>d_tax := v\<rparr>"
| "assign_form prev (Set_discount v) = prev\<lparr>d_discount := v\<rparr>"
| "assign_form prev (Set_total v) = prev\<lparr>d_total := v\<rparr>"
| "assign_form prev (Set_status v) = prev\<lparr>d_status := v\<rparr>"

definition handleInputChange :: "InvoiceDataEdit \<Rightarrow> EditorState \<Rightarrow> EditorState" where
  "handleInputChange edit st = st\<lparr>invoiceData := assign_form (invoiceData st) edit\<rparr>"

text \<open>The options of the status \<^verbatim>\<open><select>\<close> of the editor.\<close>

definition statusOptions :: "string list" where
  "statusOptions =
     [''Pending Review'', ''Approved'', ''Rejected'', ''Paid'', ''Overdue'', ''Draft'']"

text \<open>The \<^verbatim>\<open>updateData\<close> object that \<^verbatim>\<open>handleSave\<close> builds.\<close>

record UpdateData =
  u_invoice_number :: "string option"
  u_invoice_date :: "string option"
  u_due_date :: "string option"
  u_purchase_order :: "string option"
  u_vendor :: "string option"
  u_vendor_address :: "string option"
  u_vendor_email :: "string option"
  u_vendor_phone :: "string option"
  u_subtotal :: number
  u_tax :: number
  u_discount :: number
  u_total :: number
  u_status :: string
  u_line_items :: "LineItemData list"

text \<open>\<^verbatim>\<open>s === '' ? null : s\<close>.\<close>

definition empty_to_null :: "string \<Rightarrow> string option" where
  "empty_to_null s = (if s = [] then None else Some s)"

text \<open>
  \<^verbatim>\<open>handleSave\<close>: nothing is dispatched when \<^verbatim>\<open>!invoiceId\<close>, that is without an
  \<^verbatim>\<open>id\<close> parameter or with an empty one; otherwise the result is the argument
  \<^verbatim>\<open>{ id: invoiceId, invoice: updateData }\<close> that \<^verbatim>\<open>updateInvoiceAsync\<close> is dispatched
  with.
\<close>

definition handleSave :: "EditorState \<Rightarrow> (string \<times> UpdateData) option" where
  "handleSave st =
     (case invoiceId st of
        None \<Rightarrow> None
      | Some i \<Rightarrow>
          if i = [] then None
          else
          (let subtotal = calculateSubtotal st;
               total = calculateTotal st;
               form = invoiceData st
           in Some (i,
                \<lparr>u_invoice_number = empty_to_null (d_invoice_number form),
                 u_invoice_date = empty_to_null (d_invoice_date form),
                 u_due_date = empty_to_null (d_due_date form),
                 u_purchase_order = empty_to_null (d_purchase_order form),
                 u_vendor = empty_to_null (d_vendor form),
                 u_vendor_address = empty_to_null (d_vendor_address form),
                 u_vendor_email = empty_to_null (d_vendor_email form),
                 u_vendor_phone = empty_to_null (d_vendor_phone form),
                 u_subtotal = subtotal,
                 u_tax = d_tax form,
                 u_discount = d_discount form,
                 u_total = total,
                 u_status = d_status form,
                 u_line_items =
                   map (\<lambda>item.
                          \<lparr>li_description = item_description item, li_qty = item_qty item,
                           li_rate = item_rate item, li_amount = item_amount item\<rparr>)
                       (lineItems st)\<rparr>)))"

subsection \<open>The invoice list (\<^verbatim>\<open>part_001\<close>, \<^verbatim>\<open>InvoicesListPage\<close>)\<close>

definition getStatusColor :: "string \<Rightarrow> string" where
  "getStatusColor status =
     (if status = ''Paid'' then ''bg-green-100 text-green-700''
      else if status = ''Pending Review'' then ''bg-yellow-100 text-yellow-700''
      else if status = ''Rejected'' then ''bg-red-100 text-red-700''
      else if status = ''Draft'' then ''bg-gray-100 text-gray-700''
      else ''bg-gray-100 text-gray-700'')"

text \<open>
  The statuses the list page names as allowed, in its comment above
  \<^verbatim>\<open>getStatusColor\<close> (``Allowed statuses: Paid, Rejected, Pending Review, Draft'');
  they are the four cases of \<^verbatim>\<open>getStatusColor\<close> and the four status options of its
  filter.
\<close>

definition allowedStatuses :: "string list" where
  "allowedStatuses = [''Paid'', ''Rejected'', ''Pending Review'', ''Draft'']"

subsection \<open>The upload handler (\<^verbatim>\<open>upload-invoice/page.tsx\<close>)\<close>

record OCRResponse =
  o_success :: bool
  o_filename :: string
  o_image_path :: "string option"
  o_raw_text :: string
  o_extracted_fields :: ExtractedFields

text \<open>The interface \<^verbatim>\<open>InvoiceCreate\<close>, the argument of \<^verbatim>\<open>createInvoiceAsync\<close>.\<close>

record InvoiceCreate =
  c_invoice_number :: "string option"
  c_vendor :: "string option"
  c_vendor_address :: "string option"
  c_vendor_email :: "string option"
  c_vendor_phone :: "string option"
  c_bill_to_name :: "string option"
  c_bill_to_address :: "string option"
  c_invoice_date :: "string option"
  c_due_date :: "string option"
  c_purchase_order :: "string option"
  c_subtotal :: "number option"
  c_tax :: "number option"
  c_tax_amount :: "number option"
  c_discount :: "number option"
  c_total :: number
  c_currency :: "string option"
  c_status :: "string option"
  c_raw_text :: "string option"
  c_extracted_fields :: "ExtractedFields option"
  c_line_items :: "LineItemData list option"
  c_image_path :: "string option"

text \<open>
  \<^verbatim>\<open>String.prototype.trim\<close> on strings of 8-bit characters: the white space it strips is
  tab, line feed, vertical tab, form feed, carriage return and space. (The Unicode
  spaces it also strips lie outside this character type.)
\<close>

definition is_whitespace :: "char \<Rightarrow> bool" where
  "is_whitespace c = (c \<in> set [CHR 0x09, CHR 0x0A, CHR 0x0B, CHR 0x0C, CHR 0x0D, CHR '' ''])"

definition trim :: "string \<Rightarrow> string" where
  "trim s = rev (dropWhile is_whitespace (rev (dropWhile is_whitespace s)))"

text \<open>\<^verbatim>\<open>v ? String(v).trim() : null\<close>.\<close>

definition trimmed_or_null :: "string option \<Rightarrow> string option" where
  "trimmed_or_null v =
     (case v of None \<Rightarrow> None | Some s \<Rightarrow> if s = [] then None else Some (trim s))"

text \<open>The callback of \<^verbatim>\<open>extracted.items.map\<close>.\<close>

definition map_item :: "ExtractedItem \<Rightarrow> LineItemData" where
  "map_item item =
     \<lparr>li_description = str_or (xi_description item) [],
      li_qty = num_or (num_or_opt (xi_quantity item) (xi_qty item)) 1,
      li_rate = num_or (num_or_opt (xi_unitPrice item) (xi_rate item)) 0,
      li_amount = num_or (num_or_opt (xi_totalPrice item) (xi_amount item)) 0\<rparr>"

text \<open>
  \<^verbatim>\<open>handleSaveInvoice\<close>: without an OCR result nothing is saved; otherwise the result is
  the \<^verbatim>\<open>invoiceData\<close> object that \<^verbatim>\<open>createInvoiceAsync\<close> is dispatched with.
\<close>

definition handleSaveInvoice :: "OCRResponse option \<Rightarrow> InvoiceCreate option" where
  "handleSaveInvoice ocrResult =
     (case ocrResult of
        None \<Rightarrow> None
      | Some ocr \<Rightarrow>
          (let extracted = o_extracted_fields ocr;
               mappedItems = (case x_items extracted of
                                None \<Rightarrow> None
                              | Some items \<Rightarrow> Some (map map_item items))
           in Some
                \<lparr>c_invoice_number = trimmed_or_null (x_invoice_number extracted),
                 c_vendor = trimmed_or_null (x_vendor extracted),
                 c_vendor_address = trimmed_or_null (x_vendor_address extracted),
                 c_vendor_email = trimmed_or_null (x_vendor_email extracted),
                 c_vendor_phone = trimmed_or_null (x_vendor_phone extracted),
                 c_bill_to_name = trimmed_or_null (x_bill_to_name extracted),
                 c_bill_to_address = trimmed_or_null (x_bill_to_address extracted),
                 c_invoice_date =
                   str_or_opt (str_or_opt (x_invoice_date extracted) (x_date extracted)) None,
                 c_due_date = str_or_opt (x_due_date extracted) None,
                 c_purchase_order = trimmed_or_null (x_purchase_order extracted),
                 c_subtotal = Some (num_or (x_subtotal extracted) 0),
                 c_tax = Some (num_or (num_or_opt (x_taxAmount extracted) (x_tax extracted)) 0),
                 c_tax_amount =
                   Some (num_or (num_or_opt (x_taxAmount extracted) (x_tax extracted)) 0),
                 c_discount = Some (num_or (x_discount extracted) 0),
                 c_total = num_or (x_total extracted) 0,
                 c_currency = Some (str_or (x_currency extracted) ''USD''),
                 c_status = Some ''Pending Review'',
                 c_raw_text = Some (o_raw_text ocr),
                 c_extracted_fields = Some extracted,
                 c_line_items = mappedItems,
                 c_image_path = str_or_opt (o_image_path ocr) None\<rparr>))"

subsection \<open>Example inputs\<close>

text \<open>A persisted invoice whose only line item has an amount that is not its quantity
  times its rate.\<close>

definition mismatched_invoice :: Invoice where
  "mismatched_invoice =
     (sample_invoice ''a'' ''Pending Review'' 50)
       \<lparr>inv_line_items :=
          Some [\<lparr>li_description = ''Widget'', li_qty = 2, li_rate = 10, li_amount = 50\<rparr>]\<rparr>"

text \<open>The editor opened on that invoice.\<close>

definition loaded_editor :: EditorState where
  "loaded_editor = loadInvoice mismatched_invoice (initialEditor (Some ''a''))"

text \<open>An extraction that found nothing, and the OCR response that carries it.\<close>

definition no_evidence :: ExtractedFields where
  "no_evidence =
     \<lparr>x_vendor = None, x_vendor_address = None, x_vendor_email = None, x_vendor_phone = None,
      x_invoice_number = None, x_invoice_date = None, x_date = None, x_due_date = None,
      x_bill_to_name = None, x_bill_to_address = None, x_total = None, x_subtotal = None,
      x_tax = None, x_taxAmount = None, x_discount = None, x_currency = None,
      x_items = None, x_purchase_order = None\<rparr>"

definition empty_ocr :: OCRResponse where
  "empty_ocr =
     \<lparr>o_success = True, o_filename = ''scan.png'', o_image_path = None, o_raw_text = [],
      o_extracted_fields = no_evidence\<rparr>"

subsection \<open>Line-item consistency\<close>


section \<open>The extraction engine\<close>

text \<open>
  The Invoice Field Extraction Engine runs in the back end, whose code is not among the
  sources; the front end only declares the shape of its answer (\<^verbatim>\<open>OCRResponse\<close>) and
  calls it (\<^verbatim>\<open>uploadInvoiceImage\<close>). The engine is therefore modelled from the
  specification, sections 3 and 4. What the specification fixes (the order of the stages,
  what each stage does with the lines and the candidates it is given, and what it
  returns when it finds nothing) is written out; what it leaves to the pattern library is
  a parameter, the record \<open>Library\<close>. Decimals, confidences and vertical positions are
  rationals.
\<close>


text \<open>Modelled from the spec: a typed value, \<^verbatim>\<open>Typed (string|date|decimal)\<close>; a date is a
  year, a month and a day.\<close>

datatype Typed = StringValue string | DateValue nat nat nat | DecimalValue rat



text \<open>Modelled from the spec:
  \<^verbatim>\<open>LineItemRow: {description, quantity, unitPrice, lineTotal, sourceLineIndex}\<close>.\<close>

record LineItemRow =
  row_description :: string
  row_quantity :: rat
  row_unitPrice :: rat
  row_lineTotal :: rat
  row_sourceLineIndex :: nat







subsection \<open>Tokenizer (section 4.1)\<close>



subsection \<open>Field Candidate Generator (section 4.3)\<close>








subsection \<open>Vendor/Header Resolver (section 4.4)\<close>





subsection \<open>Line-Item Table Detector (section 4.5)\<close>






subsection \<open>Totals Reconciler (section 4.6)\<close>




subsection \<open>Extraction Orchestrator (section 4.7)\<close>













section \<open>Properties of the invoice slice\<close>

lemma str_or_nonempty: "d \<noteq> [] \<Longrightarrow> str_or m d \<noteq> []"
  by (simp add: str_or_def split: option.splits)

text \<open>
  Claim C9. The fulfilled delete action for id \<open>d\<close> leaves in the invoices list exactly
  the prior entries whose id is not \<open>d\<close>, unchanged and in their order, and the current
  invoice becomes null when its id was \<open>d\<close> and is unchanged otherwise.
\<close>

theorem deleteInvoice_fulfilled_effect:
  "invoices (invoiceReducer state (DeleteInvoiceFulfilled d)) =
     filter (\<lambda>inv. inv_id inv \<noteq> d) (invoices state)
   \<and> currentInvoice (invoiceReducer state (DeleteInvoiceFulfilled d)) =
     (case currentInvoice state of
        None \<Rightarrow> None
      | Some c \<Rightarrow> if inv_id c = d then None else Some c)"
  by (simp add: currentInvoice_has_id_def Let_def split: option.splits)

text \<open>
  Claim C10. The rejected action of each of the five thunks leaves the invoices list, the
  current invoice and the total count as they were, sets \<open>loading\<close> to false and sets
  \<open>error\<close> to a message, which is never null and never empty.
\<close>

theorem rejected_leaves_data_unchanged:
  "a \<in> set (rejected_actions message) \<Longrightarrow>
     invoices (invoiceReducer state a) = invoices state
   \<and> currentInvoice (invoiceReducer state a) = currentInvoice state
   \<and> totalCount (invoiceReducer state a) = totalCount state
   \<and> loading (invoiceReducer state a) = False
   \<and> (\<exists>msg. msg \<noteq> [] \<and> error (invoiceReducer state a) = Some msg)"
  by (auto simp: rejected_actions_def str_or_nonempty)

theorem rejected_leaves_data_unchanged_witness:
  "UpdateInvoiceRejected None \<in> set (rejected_actions None)
   \<and> invoices (invoiceReducer stored_state (UpdateInvoiceRejected None)) = invoices stored_state
   \<and> currentInvoice (invoiceReducer stored_state (UpdateInvoiceRejected None)) = None
   \<and> totalCount (invoiceReducer stored_state (UpdateInvoiceRejected None)) = 0
   \<and> loading (invoiceReducer stored_state (UpdateInvoiceRejected None)) = False
   \<and> error (invoiceReducer stored_state (UpdateInvoiceRejected None)) =
       Some ''Failed to update invoice''"
proof -
  have h: "UpdateInvoiceRejected None \<in> set (rejected_actions None)"
    by (simp add: rejected_actions_def)
  show ?thesis
    using h rejected_leaves_data_unchanged [OF h, of stored_state]
    by (simp add: stored_state_def initialState_def str_or_def)
qed

subsection \<open>The fulfilled update\<close>

lemma findIndex_from_found:
  "dropWhile (\<lambda>x. \<not> p x) xs = y # ys \<Longrightarrow>
     findIndex_from p xs i = i + int (length (takeWhile (\<lambda>x. \<not> p x) xs))"
proof (induction xs arbitrary: i)
  case Nil
  then show ?case by simp
next
  case (Cons x xs)
  show ?case
  proof (cases "p x")
    case True
    then show ?thesis by simp
  next
    case False
    with Cons.prems have "dropWhile (\<lambda>x. \<not> p x) xs = y # ys" by simp
    from Cons.IH [OF this, of "i + 1"] False show ?thesis by simp
  qed
qed

lemma findIndex_from_missing:
  "dropWhile (\<lambda>x. \<not> p x) xs = [] \<Longrightarrow> findIndex_from p xs i = - 1"
  by (induction xs arbitrary: i) (auto split: if_splits)

lemma update_at_first:
  assumes "dropWhile q xs = y # ys"
  shows "xs[length (takeWhile q xs) := v] = takeWhile q xs @ v # ys"
proof -
  have "xs = takeWhile q xs @ y # ys"
    using assms takeWhile_dropWhile_id [of q xs] by simp
  then have "xs[length (takeWhile q xs) := v] =
      (takeWhile q xs @ y # ys)[length (takeWhile q xs) := v]"
    by simp
  then show ?thesis by simp
qed

lemma update_first_match:
  "(let index = findIndex p xs in if index \<noteq> - 1 then xs[nat index := v] else xs) =
     (case dropWhile (\<lambda>x. \<not> p x) xs of
        [] \<Rightarrow> xs
      | old # rest \<Rightarrow> takeWhile (\<lambda>x. \<not> p x) xs @ v # rest)"
proof (cases "dropWhile (\<lambda>x. \<not> p x) xs")
  case Nil
  have "findIndex p xs = - 1"
    unfolding findIndex_def by (rule findIndex_from_missing [OF Nil])
  then show ?thesis
    unfolding Nil by simp
next
  case (Cons y ys)
  have "findIndex p xs = int (length (takeWhile (\<lambda>x. \<not> p x) xs))"
    unfolding findIndex_def using findIndex_from_found [OF Cons, of 0] by simp
  then show ?thesis
    unfolding Cons by (simp add: update_at_first [OF Cons])
qed

text \<open>
  Claim C5, as amended. A fulfilled update does not add a record version: the invoices
  list keeps its length, its first entry whose id is the payload's id is replaced by the
  payload where it stands (the list is unchanged when no entry has that id), and the
  current invoice is replaced by the payload exactly when it holds the same id.
\<close>

theorem updateInvoice_fulfilled_replaces_in_place:
  "invoices (invoiceReducer state (UpdateInvoiceFulfilled payload)) =
     (case dropWhile (\<lambda>inv. inv_id inv \<noteq> inv_id payload) (invoices state) of
        [] \<Rightarrow> invoices state
      | old # rest \<Rightarrow>
          takeWhile (\<lambda>inv. inv_id inv \<noteq> inv_id payload) (invoices state) @ payload # rest)
   \<and> length (invoices (invoiceReducer state (UpdateInvoiceFulfilled payload))) =
       length (invoices state)
   \<and> currentInvoice (invoiceReducer state (UpdateInvoiceFulfilled payload)) =
     (case currentInvoice state of
        None \<Rightarrow> None
      | Some c \<Rightarrow> if inv_id c = inv_id payload then Some payload else Some c)"
proof -
  let ?p = "\<lambda>inv. inv_id inv = inv_id payload"
  have inv: "invoices (invoiceReducer state (UpdateInvoiceFulfilled payload)) =
      (let index = findIndex ?p (invoices state)
       in if index \<noteq> - 1 then (invoices state)[nat index := payload] else invoices state)"
    by (simp add: Let_def)
  have cur: "currentInvoice (invoiceReducer state (UpdateInvoiceFulfilled payload)) =
     (case currentInvoice state of
        None \<Rightarrow> None
      | Some c \<Rightarrow> if inv_id c = inv_id payload then Some payload else Some c)"
    by (simp add: Let_def currentInvoice_has_id_def split: option.splits)
  have len: "length (invoices (invoiceReducer state (UpdateInvoiceFulfilled payload))) =
       length (invoices state)"
    unfolding inv by (simp add: Let_def)
  show ?thesis
    using cur len unfolding inv update_first_match [of ?p] by simp
qed

text \<open>
  Claim C5 as stated fails: the stored record with id \<open>a\<close> is in the list before the
  fulfilled update of the invoice with the same id, and afterwards the list holds the
  payload alone; the earlier record has been overwritten.
\<close>

theorem update_overwrites_counterexample:
  "sample_invoice ''a'' ''Pending Review'' 10 \<in> set (invoices stored_state)
   \<and> inv_id (sample_invoice ''a'' ''Pending Review'' 10) = inv_id (sample_invoice ''a'' ''Paid'' 20)
   \<and> invoices (invoiceReducer stored_state (UpdateInvoiceFulfilled (sample_invoice ''a'' ''Paid'' 20)))
       = [sample_invoice ''a'' ''Paid'' 20]
   \<and> sample_invoice ''a'' ''Pending Review'' 10 \<notin>
       set (invoices (invoiceReducer stored_state
              (UpdateInvoiceFulfilled (sample_invoice ''a'' ''Paid'' 20))))"
  by (simp add: stored_state_def initialState_def sample_invoice_def findIndex_def Let_def)

section \<open>Properties of the invoice editor\<close>




lemma loaded_editor_id: "invoiceId loaded_editor = Some ''a''"
  by (simp add: loaded_editor_def loadInvoice_def initialEditor_def)







text \<open>
  Claim C4 fails on the editor: its status select offers \<open>Approved\<close>, which is not one of
  the four allowed statuses, and saving after selecting it dispatches an update whose
  status is \<open>Approved\<close>.
\<close>

theorem approved_status_saved:
  "''Approved'' \<in> set statusOptions
   \<and> ''Approved'' \<notin> set allowedStatuses
   \<and> map_option (u_status \<circ> snd)
        (handleSave (handleInputChange (Set_status ''Approved'') loaded_editor)) =
       Some ''Approved''"
  by (simp add: statusOptions_def allowedStatuses_def handleSave_def handleInputChange_def
      loaded_editor_id Let_def)

section \<open>Properties of the upload handler\<close>

text \<open>
  Claim C1, as amended. When an OCR result is saved, every text field without extracted
  evidence (invoice number, vendor name, address, email and phone, bill-to name and
  address, invoice date, due date, purchase order), the line items and the image path are
  saved as null; the numeric fields subtotal, tax, tax amount, discount and total without
  evidence are saved as 0, and the currency without evidence as \<open>USD\<close>.
\<close>

theorem handleSaveInvoice_no_evidence:
  "\<exists>payload. handleSaveInvoice (Some ocr) = Some payload
     \<and> (x_invoice_number (o_extracted_fields ocr) = None \<longrightarrow> c_invoice_number payload = None)
     \<and> (x_vendor (o_extracted_fields ocr) = None \<longrightarrow> c_vendor payload = None)
     \<and> (x_vendor_address (o_extracted_fields ocr) = None \<longrightarrow> c_vendor_address payload = None)
     \<and> (x_vendor_email (o_extracted_fields ocr) = None \<longrightarrow> c_vendor_email payload = None)
     \<and> (x_vendor_phone (o_extracted_fields ocr) = None \<longrightarrow> c_vendor_phone payload = None)
     \<and> (x_bill_to_name (o_extracted_fields ocr) = None \<longrightarrow> c_bill_to_name payload = None)
     \<and> (x_bill_to_address (o_extracted_fields ocr) = None \<longrightarrow> c_bill_to_address payload = None)
     \<and> (x_invoice_date (o_extracted_fields ocr) = None \<and> x_date (o_extracted_fields ocr) = None
          \<longrightarrow> c_invoice_date payload = None)
     \<and> (x_due_date (o_extracted_fields ocr) = None \<longrightarrow> c_due_date payload = None)
     \<and> (x_purchase_order (o_extracted_fields ocr) = None \<longrightarrow> c_purchase_order payload = None)
     \<and> (x_items (o_extracted_fields ocr) = None \<longrightarrow> c_line_items payload = None)
     \<and> (o_image_path ocr = None \<longrightarrow> c_image_path payload = None)
     \<and> (x_subtotal (o_extracted_fields ocr) = None \<longrightarrow> c_subtotal payload = Some 0)
     \<and> (x_taxAmount (o_extracted_fields ocr) = None \<and> x_tax (o_extracted_fields ocr) = None
          \<longrightarrow> c_tax payload = Some 0 \<and> c_tax_amount payload = Some 0)
     \<and> (x_discount (o_extracted_fields ocr) = None \<longrightarrow> c_discount payload = Some 0)
     \<and> (x_total (o_extracted_fields ocr) = None \<longrightarrow> c_total payload = 0)
     \<and> (x_currency (o_extracted_fields ocr) = None \<longrightarrow> c_currency payload = Some ''USD'')"
  by (simp add: handleSaveInvoice_def Let_def trimmed_or_null_def str_or_opt_def num_or_def
      num_or_opt_def str_or_def)

theorem handleSaveInvoice_no_evidence_witness:
  "\<exists>payload. handleSaveInvoice (Some empty_ocr) = Some payload
     \<and> c_invoice_number payload = None \<and> c_vendor payload = None
     \<and> c_vendor_address payload = None \<and> c_vendor_email payload = None
     \<and> c_vendor_phone payload = None \<and> c_bill_to_name payload = None
     \<and> c_bill_to_address payload = None \<and> c_invoice_date payload = None
     \<and> c_due_date payload = None \<and> c_purchase_order payload = None
     \<and> c_line_items payload = None \<and> c_image_path payload = None
     \<and> c_subtotal payload = Some 0 \<and> c_tax payload = Some 0
     \<and> c_tax_amount payload = Some 0 \<and> c_discount payload = Some 0
     \<and> c_total payload = 0 \<and> c_currency payload = Some ''USD''"
  using handleSaveInvoice_no_evidence [of empty_ocr]
  by (simp add: empty_ocr_def no_evidence_def)

text \<open>
  Claim C1 as stated fails: for an extraction with no evidence for subtotal, tax, discount
  and total, the saved values are 0, not null.
\<close>

theorem numeric_default_counterexample:
  "x_subtotal (o_extracted_fields empty_ocr) = None
   \<and> x_tax (o_extracted_fields empty_ocr) = None
   \<and> x_taxAmount (o_extracted_fields empty_ocr) = None
   \<and> x_discount (o_extracted_fields empty_ocr) = None
   \<and> x_total (o_extracted_fields empty_ocr) = None
   \<and> map_option c_subtotal (handleSaveInvoice (Some empty_ocr)) = Some (Some 0)
   \<and> map_option c_tax (handleSaveInvoice (Some empty_ocr)) = Some (Some 0)
   \<and> map_option c_discount (handleSaveInvoice (Some empty_ocr)) = Some (Some 0)
   \<and> map_option c_total (handleSaveInvoice (Some empty_ocr)) = Some 0"
  by (simp add: handleSaveInvoice_def empty_ocr_def no_evidence_def num_or_def num_or_opt_def
      Let_def)

section \<open>Properties of the extraction engine\<close>














end
